theory Spec2Isabelle
  imports Main
begin

text \<open>
  A model of the class \<^verbatim>\<open>BaseBuilder\<close> of
  \<^verbatim>\<open>packages/lavas-core-vue/core/builder/base-builder.js\<close>: the methods that build the
  webpack configuration of the single-page application, add the HTML plugin and the
  skeleton plugin, and validate the skeleton routes.
\<close>

section \<open>JavaScript values\<close>

text \<open>
  A string-valued property of a JavaScript object may be absent: \<open>None\<close> is
  \<^verbatim>\<open>undefined\<close>. A value is falsy when it is absent or the empty string.
  \<open>toStr\<close> is the conversion a template literal \<^verbatim>\<open>`${v}`\<close> applies.
\<close>

definition truthy :: "string option \<Rightarrow> bool" where
  "truthy v = (case v of None \<Rightarrow> False | Some s \<Rightarrow> s \<noteq> [])"

definition toStr :: "string option \<Rightarrow> string" where
  "toStr v = (case v of None \<Rightarrow> ''undefined'' | Some s \<Rightarrow> s)"

text \<open>
  How a call ends. Every method of \<^verbatim>\<open>BaseBuilder\<close> modelled below is declared
  \<^verbatim>\<open>async\<close>: a call returns a promise, a \<^verbatim>\<open>throw\<close> in the body (or a rejected
  promise that the body awaits) rejects that promise, and a \<^verbatim>\<open>return\<close> fulfils it.
  \<open>Error m\<close> is \<^verbatim>\<open>new Error(m)\<close>, \<open>TypeError\<close> a property read on
  \<^verbatim>\<open>undefined\<close>, \<open>IOError p\<close> a file operation on path \<open>p\<close> that failed.
\<close>

datatype error = Error string | TypeError string | IOError string

datatype 'a promise = Fulfilled 'a | Rejected error

section \<open>Configuration objects\<close>

record route =
  path :: "string option"
  componentPath :: "string option"
  skeletonId :: "string option"
  componentName :: "string option"
  componentNameInDash :: "string option"

record globals_config =
  rootDir :: string

record build_config =
  ssr :: bool

record router_config =
  base :: "string option"
  mode :: string

record skeleton_config =
  enable :: bool
  routes :: "route list option"

record config =
  globals :: globals_config
  build :: build_config
  router :: router_config
  skeleton :: "skeleton_config option"

text \<open>
  A webpack configuration, as far as the builder touches it. \<open>resolveAlias\<close> is
  \<^verbatim>\<open>resolve.alias\<close>, \<open>contextDir\<close> is \<^verbatim>\<open>context\<close>, and an object used as a
  dictionary (\<^verbatim>\<open>entry\<close>) is a map.
\<close>

record 'p webpack_config =
  entry :: "string \<rightharpoonup> string list"
  name :: string
  contextDir :: string
  plugins :: "'p list"
  resolveAlias :: "(string \<times> string) list"

text \<open>
  The options the two plugins are constructed with. The \<^verbatim>\<open>config\<close> option of the
  HTML plugin is a reference to the builder's shared config object, which lives in the
  builder state below, and is not copied into the plugin.
\<close>

record html_options =
  filename :: string
  template :: string
  inject :: bool
  removeComments :: bool
  collapseWhitespace :: bool
  removeAttributeQuotes :: bool
  favicon :: string
  chunksSortMode :: string
  cache :: bool
  chunks :: "string list"

record skeleton_options =
  webpackConfig :: "string webpack_config"
  quiet :: bool
  routerMode :: string
  routerRoutes :: "route list"
  minimize :: bool

datatype plugin =
    HtmlWebpackPlugin html_options
  | SkeletonWebpackPlugin skeleton_options
  | OtherPlugin string

section \<open>Builder state and its collaborators\<close>

text \<open>
  What a call can read and change: the builder's fields (\<open>config\<close> is the one config
  object that the builder, its webpack config and its route manager share), the
  watchers registered through \<^verbatim>\<open>addWatcher\<close> (path, event, base URL), the file
  system, and the lines printed by \<^verbatim>\<open>console.error\<close>. Route objects are values
  here: the routes of a list are distinct objects.
\<close>

record 'fs builder =
  config :: config
  skeletonEnabled :: "bool option"
  isDev :: bool
  watchers :: "(string \<times> string \<times> string) list"
  fs :: 'fs
  console :: "string list"

text \<open>
  The collaborators the source imports and does not define: Node's \<^verbatim>\<open>path\<close>
  functions, the file system layer (\<^verbatim>\<open>writeFile\<close> is the one a subclass installs;
  a read or write that fails is \<open>None\<close>), the helpers of \<^verbatim>\<open>../utils\<close>, the
  constants of \<^verbatim>\<open>../constants\<close>, \<^verbatim>\<open>__dirname\<close>, the template renderer and the
  factory of webpack configurations (the server one with its \<^verbatim>\<open>cssExtract\<close> flag).
\<close>

record 'fs platform =
  join :: "string list \<Rightarrow> string"
  basename :: "string \<Rightarrow> string \<Rightarrow> string"
  pathExists :: "'fs \<Rightarrow> string \<Rightarrow> bool"
  readFile :: "'fs \<Rightarrow> string \<Rightarrow> string option"
  writeFile :: "'fs \<Rightarrow> string \<Rightarrow> string \<Rightarrow> 'fs option"
  resolveAliasPath :: "(string \<times> string) list \<Rightarrow> string \<Rightarrow> string"
  camelCaseToDash :: "string \<Rightarrow> string"
  assetsPath :: "string \<Rightarrow> string"
  templateClient :: "string \<Rightarrow> string \<Rightarrow> string"
  renderTemplate :: "string \<Rightarrow> route list \<Rightarrow> string"
  TEMPLATE_HTML :: string
  DEFAULT_ENTRY_NAME :: string
  DEFAULT_SKELETON_PATH :: string
  dirname :: string
  webpackClient :: "config \<Rightarrow> plugin webpack_config"
  webpackServer :: "config \<Rightarrow> bool \<Rightarrow> string webpack_config"

section \<open>Writing files\<close>

text \<open>
  The methods \<^verbatim>\<open>templatesPath\<close>, \<^verbatim>\<open>lavasPath\<close>, \<^verbatim>\<open>writeFileToLavasDir\<close> and
  \<^verbatim>\<open>writeSkeletonEntry\<close> (lines 79 to 139). A method returns the way its promise
  settles and the builder state it leaves.
\<close>

definition templatesPath :: "'fs platform \<Rightarrow> string \<Rightarrow> string" where
  "templatesPath x p = join x [dirname x, ''../templates'', p]"

definition lavasPath :: "'fs platform \<Rightarrow> 'fs builder \<Rightarrow> string \<Rightarrow> string" where
  "lavasPath x b p = join x [rootDir (globals (config b)), ''./.lavas'', p]"

definition writeFileToLavasDir ::
  "'fs platform \<Rightarrow> 'fs builder \<Rightarrow> string \<Rightarrow> string \<Rightarrow> string promise \<times> 'fs builder" where
  "writeFileToLavasDir x b p content =
     (let resolvedPath = lavasPath x b p in
      case writeFile x (fs b) resolvedPath content of
        None \<Rightarrow> (Rejected (IOError resolvedPath), b)
      | Some fs' \<Rightarrow> (Fulfilled resolvedPath, b\<lparr>fs := fs'\<rparr>))"

definition writeSkeletonEntry ::
  "'fs platform \<Rightarrow> 'fs builder \<Rightarrow> route list \<Rightarrow> string promise \<times> 'fs builder" where
  "writeSkeletonEntry x b skeletons =
     (let skeletonEntryTemplate = templatesPath x ''entry-skeleton.tmpl'' in
      case readFile x (fs b) skeletonEntryTemplate of
        None \<Rightarrow> (Rejected (IOError skeletonEntryTemplate), b)
      | Some src \<Rightarrow> writeFileToLavasDir x b ''skeleton.js'' (renderTemplate x src skeletons))"

section \<open>Validation of the skeleton routes\<close>

text \<open>
  \<^verbatim>\<open>validateSkeletonRoutes\<close> (lines 255 to 289) returns \<^verbatim>\<open>false\<close> or an object
  with a \<^verbatim>\<open>msg\<close> field, and overwrites \<^verbatim>\<open>componentPath\<close> of the routes it resolves: the model
  returns the result together with the list as the call leaves it.
\<close>

datatype validation = JsFalse | ErrorDescriptor string

text \<open>The inner loop: the first candidate that exists, \<open>None\<close> when the loop ends without \<^verbatim>\<open>break\<close>.\<close>

fun firstResolved :: "(string \<Rightarrow> bool) \<Rightarrow> string list \<Rightarrow> string option" where
  "firstResolved ex [] = None"
| "firstResolved ex (p # ps) = (if ex p then Some p else firstResolved ex ps)"

fun validateSkeletonRoutes ::
  "'fs platform \<Rightarrow> 'fs builder \<Rightarrow> route list \<Rightarrow> (string \<times> string) list \<Rightarrow> validation \<times> route list" where
  "validateSkeletonRoutes x b [] al = (JsFalse, [])"
| "validateSkeletonRoutes x b (currentRoute # rest) al =
     (if \<not> truthy (componentPath currentRoute) then
        (ErrorDescriptor (''[Lavas] componentPath for '' @ toStr (path currentRoute) @ '' is required.''),
         currentRoute # rest)
      else
        let cp = toStr (componentPath currentRoute);
            resolvedPaths = [join x [rootDir (globals (config b)), cp], resolveAliasPath x al cp]
        in case firstResolved (pathExists x (fs b)) resolvedPaths of
             None \<Rightarrow>
               (ErrorDescriptor (''[Lavas] '' @ cp @ '' is not existed during the process of generating skeleton.''),
                currentRoute # rest)
           | Some p \<Rightarrow>
               (case validateSkeletonRoutes x b rest al of
                  (e, rest') \<Rightarrow> (e, currentRoute\<lparr>componentPath := Some p\<rparr> # rest')))"

section \<open>The HTML plugin\<close>

text \<open>
  \<^verbatim>\<open>addHtmlPlugin\<close> (lines 148 to 190). The base URL defaults to \<^verbatim>\<open>/\<close> when the
  argument is undefined. The method returns, with the way its promise settles, the
  webpack config and the builder state it leaves.
\<close>

definition addHtmlPlugin ::
  "'fs platform \<Rightarrow> 'fs builder \<Rightarrow> plugin webpack_config \<Rightarrow> string option \<Rightarrow> bool \<Rightarrow>
     unit promise \<times> plugin webpack_config \<times> 'fs builder" where
  "addHtmlPlugin x b spaConfig baseUrlArg watcherEnabled =
     (let baseUrl = (case baseUrlArg of None \<Rightarrow> ''/'' | Some u \<Rightarrow> u);
          htmlFilename = DEFAULT_ENTRY_NAME x @ ''.html'';
          customTemplatePath = join x [rootDir (globals (config b)), ''core/'' @ TEMPLATE_HTML x]
      in if \<not> pathExists x (fs b) customTemplatePath then
           (Rejected (Error (TEMPLATE_HTML x @ '' required for entry: '' @ DEFAULT_ENTRY_NAME x)),
            spaConfig, b)
         else
           case readFile x (fs b) customTemplatePath of
             None \<Rightarrow> (Rejected (IOError customTemplatePath), spaConfig, b)
           | Some src \<Rightarrow>
               (case writeFileToLavasDir x b (TEMPLATE_HTML x) (templateClient x src baseUrl) of
                  (Rejected e, b1) \<Rightarrow> (Rejected e, spaConfig, b1)
                | (Fulfilled resolvedTemplatePath, b1) \<Rightarrow>
                    (Fulfilled (),
                     spaConfig\<lparr>plugins :=
                       HtmlWebpackPlugin
                         \<lparr>filename = htmlFilename,
                          template = resolvedTemplatePath,
                          inject = True,
                          removeComments = True,
                          collapseWhitespace = True,
                          removeAttributeQuotes = True,
                          favicon = assetsPath x ''img/icons/favicon.ico'',
                          chunksSortMode = ''dependency'',
                          cache = False,
                          chunks = [''manifest'', ''vue'', ''vendor'', DEFAULT_ENTRY_NAME x]\<rparr>
                       # plugins spaConfig\<rparr>,
                     if watcherEnabled
                     then b1\<lparr>watchers := watchers b1 @ [(customTemplatePath, ''change'', baseUrl)]\<rparr>
                     else b1)))"

section \<open>The skeleton plugin\<close>

text \<open>
  \<^verbatim>\<open>addSkeletonPlugin\<close> (lines 197 to 246), after its parts. First the route installed
  when the config gives no routes.
\<close>

definition defaultSkeletonRoute :: "'fs platform \<Rightarrow> route" where
  "defaultSkeletonRoute x =
     \<lparr>path = Some ''*'', componentPath = Some (DEFAULT_SKELETON_PATH x), skeletonId = None,
      componentName = None, componentNameInDash = None\<rparr>"

text \<open>
  The routes after the test \<^verbatim>\<open>!skeleton.routes || !skeleton.routes.length\<close> and
  the assignment it guards.
\<close>

definition withDefaultRoutes :: "'fs platform \<Rightarrow> skeleton_config \<Rightarrow> route list" where
  "withDefaultRoutes x sk =
     (case routes sk of
        None \<Rightarrow> [defaultSkeletonRoute x]
      | Some rs \<Rightarrow> if rs = [] then [defaultSkeletonRoute x] else rs)"

text \<open>
  The \<^verbatim>\<open>forEach\<close> over the routes: \<^verbatim>\<open>basename\<close> throws a TypeError on a path that
  is not a string, which leaves the routes before it annotated.
\<close>

fun annotateRoutes :: "'fs platform \<Rightarrow> route list \<Rightarrow> error option \<times> route list" where
  "annotateRoutes x [] = (None, [])"
| "annotateRoutes x (r # rest) =
     (case componentPath r of
        None \<Rightarrow> (Some (TypeError ''path''), r # rest)
      | Some cp \<Rightarrow>
          let cn = basename x cp ''.vue'';
              dash = camelCaseToDash x cn;
              r' = r\<lparr>componentName := Some cn,
                     componentNameInDash := Some dash,
                     skeletonId := (if truthy (skeletonId r) then skeletonId r else Some dash)\<rparr>
          in case annotateRoutes x rest of (e, rest') \<Rightarrow> (e, r' # rest'))"

text \<open>The test \<^verbatim>\<open>error && error.msg\<close>: the message, when the test is truthy.\<close>

definition errorMsg :: "validation \<Rightarrow> string option" where
  "errorMsg e = (case e of JsFalse \<Rightarrow> None | ErrorDescriptor m \<Rightarrow> if m \<noteq> [] then Some m else None)"

text \<open>The shared config with \<^verbatim>\<open>skeleton.routes\<close> holding the given list.\<close>

definition setRoutes :: "'fs builder \<Rightarrow> skeleton_config \<Rightarrow> route list \<Rightarrow> 'fs builder" where
  "setRoutes b sk rs = b\<lparr>config := (config b)\<lparr>skeleton := Some (sk\<lparr>routes := Some rs\<rparr>)\<rparr>\<rparr>"

definition addSkeletonPlugin ::
  "'fs platform \<Rightarrow> 'fs builder \<Rightarrow> plugin webpack_config \<Rightarrow>
     unit promise \<times> plugin webpack_config \<times> 'fs builder" where
  "addSkeletonPlugin x b spaConfig =
     (case skeleton (config b) of
        None \<Rightarrow> (Rejected (TypeError ''routes''), spaConfig, b)
      | Some sk \<Rightarrow>
          let rs0 = withDefaultRoutes x sk;
              (err, rs1) = validateSkeletonRoutes x b rs0 (resolveAlias spaConfig);
              b1 = setRoutes b sk rs1
          in (case errorMsg err of
               Some m \<Rightarrow> (Fulfilled (), spaConfig, b1\<lparr>console := console b1 @ [m]\<rparr>)
             | None \<Rightarrow>
                 (case annotateRoutes x rs1 of
                    (Some e, rs2) \<Rightarrow> (Rejected e, spaConfig, setRoutes b sk rs2)
                  | (None, rs2) \<Rightarrow>
                      let b2 = (setRoutes b sk rs2)\<lparr>skeletonEnabled := Some True\<rparr> in
                      (case writeSkeletonEntry x b2 rs2 of
                         (Rejected e, b3) \<Rightarrow> (Rejected e, spaConfig, b3)
                       | (Fulfilled entryPath, b3) \<Rightarrow>
                           let skeletonEntries = Map.empty(DEFAULT_ENTRY_NAME x \<mapsto> [entryPath]);
                               serverConfig = webpackServer x (config b3) True;
                               skeletonConfig =
                                 serverConfig\<lparr>plugins := butlast (plugins serverConfig),
                                               entry := skeletonEntries\<rparr>
                           in (Fulfilled (),
                               spaConfig\<lparr>plugins := plugins spaConfig @
                                 [SkeletonWebpackPlugin
                                    \<lparr>webpackConfig = skeletonConfig,
                                     quiet = True,
                                     routerMode = mode (router (config b3)),
                                     routerRoutes = rs2,
                                     minimize = (\<not> isDev b3)\<rparr>]\<rparr>,
                               b3)))))"

section \<open>The SPA configuration\<close>

text \<open>\<^verbatim>\<open>createSPAConfig\<close> (lines 297 to 328).\<close>

definition createSPAConfig ::
  "'fs platform \<Rightarrow> 'fs builder \<Rightarrow> bool \<Rightarrow> plugin webpack_config promise \<times> 'fs builder" where
  "createSPAConfig x b watcherEnabled =
     (let cfg = config b;
          spaConfig = (webpackClient x cfg)
            \<lparr>entry := Map.empty, name := ''spaclient'', contextDir := rootDir (globals cfg)\<rparr>
      in if \<not> ssr (build cfg) then
           let spaConfig1 =
                 spaConfig\<lparr>entry := (entry spaConfig)(DEFAULT_ENTRY_NAME x \<mapsto> [''./core/entry-client.js''])\<rparr>
           in case addHtmlPlugin x b spaConfig1 (base (router cfg)) watcherEnabled of
                (Rejected e, spaConfig2, b1) \<Rightarrow> (Rejected e, b1)
              | (Fulfilled u, spaConfig2, b1) \<Rightarrow>
                  (case skeleton cfg of
                     None \<Rightarrow> (Fulfilled spaConfig2, b1)
                   | Some sk \<Rightarrow>
                       if enable sk then
                         (case addSkeletonPlugin x b1 spaConfig2 of
                            (Rejected e, spaConfig3, b2) \<Rightarrow> (Rejected e, b2)
                          | (Fulfilled u', spaConfig3, b2) \<Rightarrow> (Fulfilled spaConfig3, b2))
                       else (Fulfilled spaConfig2, b1))
         else (Fulfilled spaConfig, b))"

section \<open>A concrete platform\<close>

text \<open>
  A small platform on which the model runs: the file system is an association list
  from paths to contents, \<open>join\<close> puts a slash between the segments, an alias maps a
  whole path, and the string helpers are simple stand-ins.
\<close>

definition demoPlatform :: "(string \<times> string) list platform" where
  "demoPlatform =
     \<lparr>join = (\<lambda>segs. foldr (\<lambda>s acc. if acc = [] then s else s @ ''/'' @ acc) segs []),
      basename = (\<lambda>p ext. ''B'' @ p),
      pathExists = (\<lambda>fsys p. map_of fsys p \<noteq> None),
      readFile = map_of,
      writeFile = (\<lambda>fsys p c. Some ((p, c) # fsys)),
      resolveAliasPath = (\<lambda>al p. case map_of al p of None \<Rightarrow> p | Some q \<Rightarrow> q),
      camelCaseToDash = (\<lambda>s. ''d'' @ s),
      assetsPath = (\<lambda>p. p),
      templateClient = (\<lambda>src u. src),
      renderTemplate = (\<lambda>src rs. src),
      TEMPLATE_HTML = ''t'',
      DEFAULT_ENTRY_NAME = ''main'',
      DEFAULT_SKELETON_PATH = ''S'',
      dirname = ''d'',
      webpackClient = (\<lambda>c. \<lparr>entry = Map.empty(''old'' \<mapsto> [''o.js'']), name = ''client'', contextDir = [],
                              plugins = [OtherPlugin ''define''], resolveAlias = [(''@a'', ''x'')]\<rparr>),
      webpackServer = (\<lambda>c css. \<lparr>entry = Map.empty, name = ''server'', contextDir = [],
                                  plugins = [''css'', ''ssr''], resolveAlias = []\<rparr>)\<rparr>"

definition demoRoute :: "string \<Rightarrow> string option \<Rightarrow> route" where
  "demoRoute p cp =
     \<lparr>path = Some p, componentPath = cp, skeletonId = None, componentName = None,
      componentNameInDash = None\<rparr>"

definition demoBuilder ::
  "bool \<Rightarrow> skeleton_config option \<Rightarrow> (string \<times> string) list \<Rightarrow> (string \<times> string) list builder" where
  "demoBuilder s sk fsys =
     \<lparr>config = \<lparr>globals = \<lparr>rootDir = ''r''\<rparr>, build = \<lparr>ssr = s\<rparr>,
                 router = \<lparr>base = None, mode = ''history''\<rparr>, skeleton = sk\<rparr>,
      skeletonEnabled = None, isDev = False, watchers = [], fs = fsys, console = []\<rparr>"

section \<open>Properties of the validation\<close>


lemma validate_length: "length (snd (validateSkeletonRoutes x b rs al)) = length rs"
  by (induction rs) (auto simp: Let_def split: option.splits prod.splits)

lemma validate_append:
  "validateSkeletonRoutes x b pre al = (JsFalse, pre') \<Longrightarrow>
   validateSkeletonRoutes x b (pre @ rest) al =
     (case validateSkeletonRoutes x b rest al of (e, rest') \<Rightarrow> (e, pre' @ rest'))"
proof (induction pre arbitrary: pre')
  case Nil
  then show ?case by simp
next
  case (Cons r pre)
  then show ?case
    by (auto simp: Let_def split: if_splits option.splits prod.splits)
qed

lemma validate_msg_nonempty:
  "validateSkeletonRoutes x b rs al = (ErrorDescriptor m, rs') \<Longrightarrow> m \<noteq> []"
  by (induction rs arbitrary: rs') (auto simp: Let_def split: if_splits option.splits prod.splits)

lemma validate_fields:
  "validateSkeletonRoutes x b rs al = (e, rs') \<Longrightarrow>
   map path rs' = map path rs \<and> map skeletonId rs' = map skeletonId rs \<and>
   map componentName rs' = map componentName rs \<and>
   map componentNameInDash rs' = map componentNameInDash rs"
  by (induction rs arbitrary: rs' e) (auto simp: Let_def split: if_splits option.splits prod.splits)

lemma validate_head:
  "validateSkeletonRoutes x b (r # post) al =
     (if \<not> truthy (componentPath r) then
        (ErrorDescriptor (''[Lavas] componentPath for '' @ toStr (path r) @ '' is required.''), r # post)
      else
        let cp = toStr (componentPath r);
            c1 = join x [rootDir (globals (config b)), cp];
            c2 = resolveAliasPath x al cp
        in if pathExists x (fs b) c1 then
             (fst (validateSkeletonRoutes x b post al),
              r\<lparr>componentPath := Some c1\<rparr> # snd (validateSkeletonRoutes x b post al))
           else if pathExists x (fs b) c2 then
             (fst (validateSkeletonRoutes x b post al),
              r\<lparr>componentPath := Some c2\<rparr> # snd (validateSkeletonRoutes x b post al))
           else
             (ErrorDescriptor (''[Lavas] '' @ cp @ '' is not existed during the process of generating skeleton.''),
              r # post))"
  by (simp add: Let_def split: prod.splits)

declare validateSkeletonRoutes.simps(2) [simp del]

lemma validate_ok_nth:
  "validateSkeletonRoutes x b rs al = (JsFalse, rs') \<Longrightarrow> k < length rs \<Longrightarrow>
   \<exists>cp. componentPath (rs ! k) = Some cp \<and> cp \<noteq> [] \<and>
     (let c1 = join x [rootDir (globals (config b)), cp]; c2 = resolveAliasPath x al cp;
          p = (if pathExists x (fs b) c1 then c1 else c2)
      in componentPath (rs' ! k) = Some p \<and> pathExists x (fs b) p)"
proof (induction rs arbitrary: rs' k)
  case Nil
  then show ?case by simp
next
  case (Cons r rs)
  show ?case
  proof (cases k)
    case 0
    with Cons.prems show ?thesis
      by (cases "componentPath r") (auto simp: validate_head Let_def truthy_def toStr_def split: if_splits)
  next
    case (Suc j)
    have tl: "validateSkeletonRoutes x b rs al = (JsFalse, tl rs')"
      using Cons.prems(1) by (auto simp: validate_head Let_def prod_eq_iff split: if_splits)
    have nth: "rs' ! k = tl rs' ! j"
      using Cons.prems(1) Suc by (auto simp: validate_head Let_def split: if_splits)
    from Cons.prems Suc have "j < length rs" by simp
    from Cons.IH[OF tl this] show ?thesis using Suc nth by simp
  qed
qed

lemma validate_falsy_mem:
  "r \<in> set rs \<Longrightarrow> \<not> truthy (componentPath r) \<Longrightarrow>
   \<exists>m. fst (validateSkeletonRoutes x b rs al) = ErrorDescriptor m"
  by (induction rs) (auto simp: validate_head Let_def)







text \<open>
  Claim C2. A list holding a route whose \<^verbatim>\<open>componentPath\<close> is missing (absent or
  empty) never validates: the call returns an error descriptor, not \<^verbatim>\<open>false\<close>, and
  its message is not empty. When that route is reached with every route before it
  resolved, the message names the route's path and says that componentPath is required.
\<close>

theorem missing_componentPath_fails:
  assumes "r \<in> set rs" and "\<not> truthy (componentPath r)"
  shows "(\<exists>m. fst (validateSkeletonRoutes x b rs al) = ErrorDescriptor m \<and> m \<noteq> []) \<and>
         (\<forall>pre post pre'.
            rs = pre @ r # post \<and> validateSkeletonRoutes x b pre al = (JsFalse, pre') \<longrightarrow>
            validateSkeletonRoutes x b rs al =
              (ErrorDescriptor (''[Lavas] componentPath for '' @ toStr (path r) @ '' is required.''),
               pre' @ r # post))"
proof (intro conjI allI impI)
  from validate_falsy_mem[OF assms] obtain m
    where m: "fst (validateSkeletonRoutes x b rs al) = ErrorDescriptor m" by blast
  then have "validateSkeletonRoutes x b rs al = (ErrorDescriptor m, snd (validateSkeletonRoutes x b rs al))"
    by (simp add: prod_eq_iff)
  from validate_msg_nonempty[OF this] m
  show "\<exists>m. fst (validateSkeletonRoutes x b rs al) = ErrorDescriptor m \<and> m \<noteq> []" by blast
next
  fix pre post pre'
  assume h: "rs = pre @ r # post \<and> validateSkeletonRoutes x b pre al = (JsFalse, pre')"
  then have ok: "validateSkeletonRoutes x b pre al = (JsFalse, pre')" by simp
  show "validateSkeletonRoutes x b rs al =
          (ErrorDescriptor (''[Lavas] componentPath for '' @ toStr (path r) @ '' is required.''),
           pre' @ r # post)"
    using h assms(2) by (simp add: validate_append[OF ok] validate_head)
qed

theorem missing_componentPath_fails_witness:
  "demoRoute ''/q'' None \<in> set [demoRoute ''/p'' (Some ''a''), demoRoute ''/q'' None, demoRoute ''/z'' (Some ''zz'')] \<and>
   \<not> truthy (componentPath (demoRoute ''/q'' None)) \<and>
   validateSkeletonRoutes demoPlatform (demoBuilder False None [(''r/a'', ''A'')])
     [demoRoute ''/p'' (Some ''a''), demoRoute ''/q'' None, demoRoute ''/z'' (Some ''zz'')] []
     = (ErrorDescriptor ''[Lavas] componentPath for /q is required.'',
        [demoRoute ''/p'' (Some ''r/a''), demoRoute ''/q'' None, demoRoute ''/z'' (Some ''zz'')])"
proof -
  let ?b = "demoBuilder False None [(''r/a'', ''A'')]"
  let ?rs = "[demoRoute ''/p'' (Some ''a''), demoRoute ''/q'' None, demoRoute ''/z'' (Some ''zz'')]"
  have mem: "demoRoute ''/q'' None \<in> set ?rs" by simp
  have falsy: "\<not> truthy (componentPath (demoRoute ''/q'' None))"
    by (simp add: demoRoute_def truthy_def)
  have pre: "validateSkeletonRoutes demoPlatform ?b [demoRoute ''/p'' (Some ''a'')] []
               = (JsFalse, [demoRoute ''/p'' (Some ''r/a'')])"
    by (simp add: validate_head demoPlatform_def demoBuilder_def demoRoute_def truthy_def toStr_def)
  have split: "?rs = [demoRoute ''/p'' (Some ''a'')] @ demoRoute ''/q'' None # [demoRoute ''/z'' (Some ''zz'')]"
    by simp
  from missing_componentPath_fails[OF mem falsy, of demoPlatform ?b "[]"]
  have "validateSkeletonRoutes demoPlatform ?b ?rs [] =
          (ErrorDescriptor (''[Lavas] componentPath for '' @ toStr (path (demoRoute ''/q'' None)) @ '' is required.''),
           [demoRoute ''/p'' (Some ''r/a'')] @ demoRoute ''/q'' None # [demoRoute ''/z'' (Some ''zz'')])"
    using split pre by blast
  then show ?thesis using mem falsy by (simp add: demoRoute_def toStr_def)
qed

text \<open>
  Claim C3. When \<^verbatim>\<open>validateSkeletonRoutes\<close> returns \<^verbatim>\<open>false\<close>, every route of the
  list holds in \<^verbatim>\<open>componentPath\<close> a path for which \<^verbatim>\<open>pathExists\<close> was true, and that
  path is one of the two candidates computed from the route's former
  \<^verbatim>\<open>componentPath\<close>.
\<close>

theorem validated_routes_exist:
  assumes "validateSkeletonRoutes x b rs al = (JsFalse, rs')"
  shows "length rs' = length rs \<and>
         (\<forall>r \<in> set rs'. \<exists>p. componentPath r = Some p \<and> pathExists x (fs b) p) \<and>
         (\<forall>k < length rs. \<exists>cp p.
            componentPath (rs ! k) = Some cp \<and> componentPath (rs' ! k) = Some p \<and>
            p \<in> {join x [rootDir (globals (config b)), cp], resolveAliasPath x al cp} \<and>
            pathExists x (fs b) p)"
proof (intro conjI ballI allI impI)
  show len: "length rs' = length rs" using validate_length[of x b rs al] assms by simp
  show "\<exists>cp p. componentPath (rs ! k) = Some cp \<and> componentPath (rs' ! k) = Some p \<and>
            p \<in> {join x [rootDir (globals (config b)), cp], resolveAliasPath x al cp} \<and>
            pathExists x (fs b) p" if "k < length rs" for k
    using validate_ok_nth[OF assms that] by (auto simp: Let_def)
  then show "\<exists>p. componentPath r = Some p \<and> pathExists x (fs b) p" if "r \<in> set rs'" for r
    using that len by (fastforce simp: in_set_conv_nth)
qed

theorem validated_routes_exist_witness:
  "validateSkeletonRoutes demoPlatform (demoBuilder False None [(''r/a'', ''A''), (''x'', ''X'')])
     [demoRoute ''/p'' (Some ''a''), demoRoute ''/q'' (Some ''@a'')] [(''@a'', ''x'')]
     = (JsFalse, [demoRoute ''/p'' (Some ''r/a''), demoRoute ''/q'' (Some ''x'')]) \<and>
   pathExists demoPlatform (fs (demoBuilder False None [(''r/a'', ''A''), (''x'', ''X'')])) ''r/a'' \<and>
   pathExists demoPlatform (fs (demoBuilder False None [(''r/a'', ''A''), (''x'', ''X'')])) ''x''"
proof -
  let ?b = "demoBuilder False None [(''r/a'', ''A''), (''x'', ''X'')]"
  have run: "validateSkeletonRoutes demoPlatform ?b
     [demoRoute ''/p'' (Some ''a''), demoRoute ''/q'' (Some ''@a'')] [(''@a'', ''x'')]
     = (JsFalse, [demoRoute ''/p'' (Some ''r/a''), demoRoute ''/q'' (Some ''x'')])"
    by (simp add: validate_head demoPlatform_def demoBuilder_def demoRoute_def truthy_def toStr_def)
  from validated_routes_exist[OF run]
  have "\<forall>r \<in> set [demoRoute ''/p'' (Some ''r/a''), demoRoute ''/q'' (Some ''x'')].
          \<exists>p. componentPath r = Some p \<and> pathExists demoPlatform (fs ?b) p"
    by blast
  then show ?thesis using run by (simp add: demoRoute_def)
qed







section \<open>Properties of the plugins and of the SPA configuration\<close>

lemma validate_cong:
  "rootDir (globals (config b)) = rootDir (globals (config b')) \<Longrightarrow> fs b = fs b' \<Longrightarrow>
   validateSkeletonRoutes x b rs al = validateSkeletonRoutes x b' rs al"
  by (induction rs) (simp_all add: validate_head Let_def)

lemma writeFileToLavasDir_state:
  "writeFileToLavasDir x b p c = (res, b') \<Longrightarrow> \<exists>f. b' = b\<lparr>fs := f\<rparr>"
  by (auto simp: writeFileToLavasDir_def Let_def split: option.splits intro: exI[of _ "fs b"])

lemma writeSkeletonEntry_state:
  "writeSkeletonEntry x b rs = (res, b') \<Longrightarrow> \<exists>f. b' = b\<lparr>fs := f\<rparr>"
  by (auto simp: writeSkeletonEntry_def Let_def split: option.splits
           dest: writeFileToLavasDir_state intro: exI[of _ "fs b"])

lemma writeFileToLavasDir_rejected:
  "writeFileToLavasDir x b p c = (Rejected e, b') \<Longrightarrow> e = IOError (lavasPath x b p) \<and> b' = b"
  by (auto simp: writeFileToLavasDir_def Let_def split: option.splits)

lemma addHtmlPlugin_absent:
  "\<not> pathExists x (fs b) (join x [rootDir (globals (config b)), ''core/'' @ TEMPLATE_HTML x]) \<Longrightarrow>
   addHtmlPlugin x b spa bu w =
     (Rejected (Error (TEMPLATE_HTML x @ '' required for entry: '' @ DEFAULT_ENTRY_NAME x)), spa, b)"
  by (simp add: addHtmlPlugin_def Let_def)

lemma addHtmlPlugin_present:
  "pathExists x (fs b) (join x [rootDir (globals (config b)), ''core/'' @ TEMPLATE_HTML x]) \<Longrightarrow>
   fst (addHtmlPlugin x b spa bu w) \<noteq> Rejected (Error m)"
  by (auto simp: addHtmlPlugin_def Let_def split: option.splits prod.splits promise.splits
           dest!: writeFileToLavasDir_rejected)


lemma annotate_length: "length (snd (annotateRoutes x rs)) = length rs"
  by (induction rs) (auto simp: Let_def split: option.splits prod.splits)

lemma annotate_path: "map path (snd (annotateRoutes x rs)) = map path rs"
  by (induction rs) (auto simp: Let_def split: option.splits prod.splits)

lemma annotate_ok:
  "\<forall>r \<in> set rs. componentPath r \<noteq> None \<Longrightarrow>
   annotateRoutes x rs =
     (None, map (\<lambda>r. r\<lparr>componentName := Some (basename x (the (componentPath r)) ''.vue''),
                        componentNameInDash := Some (camelCaseToDash x (basename x (the (componentPath r)) ''.vue'')),
                        skeletonId := (if truthy (skeletonId r) then skeletonId r
                                       else Some (camelCaseToDash x (basename x (the (componentPath r)) ''.vue'')))\<rparr>) rs)"
  by (induction rs) (auto simp: Let_def split: option.splits prod.splits)

lemma errorMsg_validate:
  "validateSkeletonRoutes x b rs al = (ErrorDescriptor m, rs') \<Longrightarrow> errorMsg (ErrorDescriptor m) = Some m"
  by (simp add: errorMsg_def validate_msg_nonempty)


lemma validate_ok_set:
  "validateSkeletonRoutes x b rs al = (JsFalse, rs') \<Longrightarrow> r \<in> set rs' \<Longrightarrow>
   \<exists>p. componentPath r = Some p \<and> pathExists x (fs b) p"
proof -
  assume ok: "validateSkeletonRoutes x b rs al = (JsFalse, rs')" and mem: "r \<in> set rs'"
  have len: "length rs' = length rs" using validate_length[of x b rs al] ok by simp
  from mem obtain k where k: "k < length rs'" and r: "rs' ! k = r" by (auto simp: in_set_conv_nth)
  from validate_ok_nth[OF ok, of k] k len r show ?thesis by (auto simp: Let_def)
qed

lemma addSkeletonPlugin_error:
  assumes "skeleton (config b) = Some sk"
    and "validateSkeletonRoutes x b (withDefaultRoutes x sk) (resolveAlias spa) = (ErrorDescriptor m, rs1)"
  shows "addSkeletonPlugin x b spa =
           (Fulfilled (), spa, (setRoutes b sk rs1)\<lparr>console := console b @ [m]\<rparr>)"
  using assms errorMsg_validate[OF assms(2)]
  by (simp add: addSkeletonPlugin_def Let_def setRoutes_def)

lemma addSkeletonPlugin_valid:
  assumes "skeleton (config b) = Some sk"
    and "validateSkeletonRoutes x b (withDefaultRoutes x sk) (resolveAlias spa) = (JsFalse, rs1)"
    and "rs2 = map (\<lambda>r. r\<lparr>componentName := Some (basename x (the (componentPath r)) ''.vue''),
                        componentNameInDash := Some (camelCaseToDash x (basename x (the (componentPath r)) ''.vue'')),
                        skeletonId := (if truthy (skeletonId r) then skeletonId r
                                       else Some (camelCaseToDash x (basename x (the (componentPath r)) ''.vue'')))\<rparr>) rs1"
  shows "addSkeletonPlugin x b spa =
     (case writeSkeletonEntry x ((setRoutes b sk rs2)\<lparr>skeletonEnabled := Some True\<rparr>) rs2 of
        (Rejected e, b3) \<Rightarrow> (Rejected e, spa, b3)
      | (Fulfilled entryPath, b3) \<Rightarrow>
          (Fulfilled (),
           spa\<lparr>plugins := plugins spa @
             [SkeletonWebpackPlugin
                \<lparr>webpackConfig =
                   (webpackServer x (config b3) True)
                     \<lparr>plugins := butlast (plugins (webpackServer x (config b3) True)),
                      entry := Map.empty(DEFAULT_ENTRY_NAME x \<mapsto> [entryPath])\<rparr>,
                 quiet = True,
                 routerMode = mode (router (config b3)),
                 routerRoutes = rs2,
                 minimize = (\<not> isDev b3)\<rparr>]\<rparr>,
           b3))"
proof -
  have "\<forall>r \<in> set rs1. componentPath r \<noteq> None"
    using validate_ok_set[OF assms(2)] by fastforce
  from annotate_ok[OF this, of x] have ann: "annotateRoutes x rs1 = (None, rs2)"
    using assms(3) by simp
  show ?thesis
    using assms(1,2) ann
    by (simp add: addSkeletonPlugin_def Let_def errorMsg_def split: prod.splits promise.splits)
qed


lemmas demo_defs = demoPlatform_def demoBuilder_def demoRoute_def

lemmas run_defs =
  createSPAConfig_def addHtmlPlugin_def addSkeletonPlugin_def writeFileToLavasDir_def
  writeSkeletonEntry_def lavasPath_def templatesPath_def withDefaultRoutes_def
  defaultSkeletonRoute_def errorMsg_def setRoutes_def validate_head Let_def truthy_def toStr_def

text \<open>
  Claim C4. With \<^verbatim>\<open>build.ssr\<close> false and the HTML template absent,
  \<^verbatim>\<open>createSPAConfig\<close> fails with the missing-template error, whatever the skeleton
  routes and their component files are: \<^verbatim>\<open>addHtmlPlugin\<close> is awaited first. The
  builder state is returned as it was, so the validation of the skeleton routes was not
  reached: no route was installed or overwritten and nothing was logged.
\<close>

theorem createSPAConfig_missing_template_first:
  assumes "\<not> ssr (build (config b))"
    and "\<not> pathExists x (fs b) (join x [rootDir (globals (config b)), ''core/'' @ TEMPLATE_HTML x])"
  shows "createSPAConfig x b w =
           (Rejected (Error (TEMPLATE_HTML x @ '' required for entry: '' @ DEFAULT_ENTRY_NAME x)), b)"
  using assms by (simp add: createSPAConfig_def Let_def addHtmlPlugin_absent)

theorem createSPAConfig_missing_template_first_witness:
  "\<not> ssr (build (config (demoBuilder False (Some \<lparr>enable = True, routes = Some [demoRoute ''/p'' (Some ''a'')]\<rparr>) []))) \<and>
   \<not> pathExists demoPlatform (fs (demoBuilder False (Some \<lparr>enable = True, routes = Some [demoRoute ''/p'' (Some ''a'')]\<rparr>) [])) ''r/core/t'' \<and>
   fst (validateSkeletonRoutes demoPlatform
          (demoBuilder False (Some \<lparr>enable = True, routes = Some [demoRoute ''/p'' (Some ''a'')]\<rparr>) [])
          [demoRoute ''/p'' (Some ''a'')] [(''@a'', ''x'')])
     = ErrorDescriptor ''[Lavas] a is not existed during the process of generating skeleton.'' \<and>
   createSPAConfig demoPlatform
     (demoBuilder False (Some \<lparr>enable = True, routes = Some [demoRoute ''/p'' (Some ''a'')]\<rparr>) []) False
     = (Rejected (Error ''t required for entry: main''),
        demoBuilder False (Some \<lparr>enable = True, routes = Some [demoRoute ''/p'' (Some ''a'')]\<rparr>) [])"
proof -
  let ?b = "demoBuilder False (Some \<lparr>enable = True, routes = Some [demoRoute ''/p'' (Some ''a'')]\<rparr>) []"
  have a: "\<not> ssr (build (config ?b))" by (simp add: demo_defs)
  have t: "join demoPlatform [rootDir (globals (config ?b)), ''core/'' @ TEMPLATE_HTML demoPlatform] = ''r/core/t''"
    by (simp add: demo_defs)
  have c: "\<not> pathExists demoPlatform (fs ?b) ''r/core/t''" by (simp add: demo_defs)
  have v: "fst (validateSkeletonRoutes demoPlatform ?b [demoRoute ''/p'' (Some ''a'')] [(''@a'', ''x'')])
     = ErrorDescriptor ''[Lavas] a is not existed during the process of generating skeleton.''"
    by (simp add: run_defs demo_defs)
  from createSPAConfig_missing_template_first[of ?b demoPlatform False] a c t
  have "createSPAConfig demoPlatform ?b False =
          (Rejected (Error (TEMPLATE_HTML demoPlatform @ '' required for entry: '' @ DEFAULT_ENTRY_NAME demoPlatform)), ?b)"
    by simp
  then show ?thesis using a c v by (simp add: demoPlatform_def)
qed

text \<open>
  With the template absent, the call of the \<^verbatim>\<open>async\<close> method \<^verbatim>\<open>addHtmlPlugin\<close>
  does not throw to its caller: it returns a promise, and that promise is rejected.
\<close>

theorem addHtmlPlugin_sync_throw_counterexample:
  "addHtmlPlugin demoPlatform (demoBuilder False None [])
     (webpackClient demoPlatform (config (demoBuilder False None []))) None False
   = (Rejected (Error ''t required for entry: main''),
      webpackClient demoPlatform (config (demoBuilder False None [])),
      demoBuilder False None [])"
  by (simp add: run_defs demo_defs)

text \<open>
  Claim C5, amended. The promise returned by \<^verbatim>\<open>addHtmlPlugin\<close> is rejected with the
  error \<^verbatim>\<open><TEMPLATE_HTML> required for entry: <DEFAULT_ENTRY_NAME>\<close> if and only if the
  custom template path \<^verbatim>\<open>rootDir/core/TEMPLATE_HTML\<close> does not exist. The error is
  raised as an exception in the body, not returned as an error descriptor, and nothing is
  retried or recovered: the webpack config and the builder state are left as they were.
\<close>

theorem addHtmlPlugin_missing_template:
  "(fst (addHtmlPlugin x b spa bu w) =
      Rejected (Error (TEMPLATE_HTML x @ '' required for entry: '' @ DEFAULT_ENTRY_NAME x)))
     = (\<not> pathExists x (fs b) (join x [rootDir (globals (config b)), ''core/'' @ TEMPLATE_HTML x])) \<and>
   (\<not> pathExists x (fs b) (join x [rootDir (globals (config b)), ''core/'' @ TEMPLATE_HTML x]) \<longrightarrow>
      addHtmlPlugin x b spa bu w =
        (Rejected (Error (TEMPLATE_HTML x @ '' required for entry: '' @ DEFAULT_ENTRY_NAME x)), spa, b))"
  using addHtmlPlugin_absent[of x b spa bu w] addHtmlPlugin_present[of x b spa bu w]
  by auto

theorem addHtmlPlugin_missing_template_witness:
  "\<not> pathExists demoPlatform (fs (demoBuilder False None [])) ''r/core/t'' \<and>
   fst (addHtmlPlugin demoPlatform (demoBuilder False None [])
     (webpackClient demoPlatform (config (demoBuilder False None []))) (Some ''/b/'') True)
   = Rejected (Error ''t required for entry: main'') \<and>
   pathExists demoPlatform (fs (demoBuilder False None [(''r/core/t'', ''T'')])) ''r/core/t'' \<and>
   fst (addHtmlPlugin demoPlatform (demoBuilder False None [(''r/core/t'', ''T'')])
     (webpackClient demoPlatform (config (demoBuilder False None []))) (Some ''/b/'') True)
   = Fulfilled ()"
proof -
  let ?b = "demoBuilder False None []"
  let ?spa = "webpackClient demoPlatform (config (demoBuilder False None []))"
  have t: "join demoPlatform [rootDir (globals (config ?b)), ''core/'' @ TEMPLATE_HTML demoPlatform] = ''r/core/t''"
    by (simp add: demo_defs)
  have c: "\<not> pathExists demoPlatform (fs ?b) ''r/core/t''" by (simp add: demo_defs)
  from addHtmlPlugin_missing_template[of demoPlatform ?b ?spa "Some ''/b/''" True] c t
  have "fst (addHtmlPlugin demoPlatform ?b ?spa (Some ''/b/'') True) =
          Rejected (Error (TEMPLATE_HTML demoPlatform @ '' required for entry: '' @ DEFAULT_ENTRY_NAME demoPlatform))"
    by simp
  then have 1: "fst (addHtmlPlugin demoPlatform ?b ?spa (Some ''/b/'') True) =
          Rejected (Error ''t required for entry: main'')"
    by (simp add: demoPlatform_def)
  have 2: "pathExists demoPlatform (fs (demoBuilder False None [(''r/core/t'', ''T'')])) ''r/core/t''"
    by (simp add: demo_defs)
  have 3: "fst (addHtmlPlugin demoPlatform (demoBuilder False None [(''r/core/t'', ''T'')]) ?spa (Some ''/b/'') True)
             = Fulfilled ()"
    by (simp add: run_defs demo_defs)
  from c 1 2 3 show ?thesis by blast
qed


text \<open>
  Claim C6. When the validation returns an error descriptor, \<^verbatim>\<open>addSkeletonPlugin\<close> logs
  its message and does nothing more: the call is fulfilled, the webpack config (and so its
  plugins) is unchanged, no file is written, \<^verbatim>\<open>skeletonEnabled\<close> keeps its value, and the
  routes keep their \<^verbatim>\<open>componentName\<close>, \<^verbatim>\<open>componentNameInDash\<close> and
  \<^verbatim>\<open>skeletonId\<close>.
\<close>

theorem addSkeletonPlugin_no_recovery:
  assumes "skeleton (config b) = Some sk"
    and "validateSkeletonRoutes x b (withDefaultRoutes x sk) (resolveAlias spa) = (ErrorDescriptor m, rs1)"
  shows "\<exists>b'. addSkeletonPlugin x b spa = (Fulfilled (), spa, b') \<and>
           console b' = console b @ [m] \<and>
           fs b' = fs b \<and>
           skeletonEnabled b' = skeletonEnabled b \<and>
           watchers b' = watchers b \<and>
           isDev b' = isDev b \<and>
           config b' = (config b)\<lparr>skeleton := Some (sk\<lparr>routes := Some rs1\<rparr>)\<rparr> \<and>
           map componentName rs1 = map componentName (withDefaultRoutes x sk) \<and>
           map componentNameInDash rs1 = map componentNameInDash (withDefaultRoutes x sk) \<and>
           map skeletonId rs1 = map skeletonId (withDefaultRoutes x sk)"
  using addSkeletonPlugin_error[OF assms] validate_fields[OF assms(2)]
  by (simp add: setRoutes_def)

theorem addSkeletonPlugin_no_recovery_witness:
  "skeleton (config (demoBuilder False
      (Some \<lparr>enable = True, routes = Some [demoRoute ''/p'' (Some ''a''), demoRoute ''/q'' None]\<rparr>)
      [(''r/a'', ''A'')]))
     = Some \<lparr>enable = True, routes = Some [demoRoute ''/p'' (Some ''a''), demoRoute ''/q'' None]\<rparr> \<and>
   addSkeletonPlugin demoPlatform
     (demoBuilder False
        (Some \<lparr>enable = True, routes = Some [demoRoute ''/p'' (Some ''a''), demoRoute ''/q'' None]\<rparr>)
        [(''r/a'', ''A'')])
     (webpackClient demoPlatform (config (demoBuilder False None [])))
   = (Fulfilled (),
      webpackClient demoPlatform (config (demoBuilder False None [])),
      (demoBuilder False
        (Some \<lparr>enable = True, routes = Some [demoRoute ''/p'' (Some ''r/a''), demoRoute ''/q'' None]\<rparr>)
        [(''r/a'', ''A'')])
      \<lparr>console := [''[Lavas] componentPath for /q is required.'']\<rparr>)"
proof -
  let ?sk = "\<lparr>enable = True, routes = Some [demoRoute ''/p'' (Some ''a''), demoRoute ''/q'' None]\<rparr>"
  let ?b = "demoBuilder False (Some ?sk) [(''r/a'', ''A'')]"
  let ?spa = "webpackClient demoPlatform (config (demoBuilder False None []))"
  have sk: "skeleton (config ?b) = Some ?sk" by (simp add: demo_defs)
  have v: "validateSkeletonRoutes demoPlatform ?b (withDefaultRoutes demoPlatform ?sk) (resolveAlias ?spa)
             = (ErrorDescriptor ''[Lavas] componentPath for /q is required.'',
                [demoRoute ''/p'' (Some ''r/a''), demoRoute ''/q'' None])"
    by (simp add: run_defs demo_defs)
  from addSkeletonPlugin_no_recovery[OF sk v] obtain b' where
    r: "addSkeletonPlugin demoPlatform ?b ?spa = (Fulfilled (), ?spa, b')"
    and c: "console b' = console ?b @ [''[Lavas] componentPath for /q is required.'']"
    and f: "fs b' = fs ?b" and e: "skeletonEnabled b' = skeletonEnabled ?b"
    and w: "watchers b' = watchers ?b" and d: "isDev b' = isDev ?b"
    and g: "config b' = (config ?b)\<lparr>skeleton := Some (?sk\<lparr>routes :=
              Some [demoRoute ''/p'' (Some ''r/a''), demoRoute ''/q'' None]\<rparr>)\<rparr>"
    by blast
  from c f e w d g have "b' = (demoBuilder False
        (Some \<lparr>enable = True, routes = Some [demoRoute ''/p'' (Some ''r/a''), demoRoute ''/q'' None]\<rparr>)
        [(''r/a'', ''A'')])\<lparr>console := [''[Lavas] componentPath for /q is required.'']\<rparr>"
    by (cases b') (simp add: demoBuilder_def)
  with r sk show ?thesis by simp
qed

text \<open>
  Claim C8. When \<^verbatim>\<open>skeleton.routes\<close> is undefined or empty, \<^verbatim>\<open>addSkeletonPlugin\<close>
  installs the single route with path \<^verbatim>\<open>*\<close> and component path
  \<^verbatim>\<open>DEFAULT_SKELETON_PATH\<close> before it validates, and goes on exactly as on a config that
  lists this route itself. The route is validated: when the default path is empty, or
  neither of its two candidates exists, the error is logged and the config keeps the
  default route. Otherwise the route is used: it gets its first existing candidate as
  \<^verbatim>\<open>componentPath\<close> and its names and \<^verbatim>\<open>skeletonId\<close> from that path,
  \<^verbatim>\<open>skeletonEnabled\<close> is set, the skeleton entry is written for it, and it is the route
  of the skeleton plugin that is added.
\<close>

theorem addSkeletonPlugin_installs_default_route:
  assumes "skeleton (config b) = Some sk"
    and "routes sk = None \<or> routes sk = Some []"
  shows "addSkeletonPlugin x b spa = addSkeletonPlugin x (setRoutes b sk [defaultSkeletonRoute x]) spa \<and>
    (let d = DEFAULT_SKELETON_PATH x;
         c1 = join x [rootDir (globals (config b)), d];
         c2 = resolveAliasPath x (resolveAlias spa) d
     in if d = [] then
          addSkeletonPlugin x b spa =
            (Fulfilled (), spa,
             (setRoutes b sk [defaultSkeletonRoute x])
               \<lparr>console := console b @ [''[Lavas] componentPath for * is required.'']\<rparr>)
        else if \<not> pathExists x (fs b) c1 \<and> \<not> pathExists x (fs b) c2 then
          addSkeletonPlugin x b spa =
            (Fulfilled (), spa,
             (setRoutes b sk [defaultSkeletonRoute x])
               \<lparr>console := console b @
                  [''[Lavas] '' @ d @ '' is not existed during the process of generating skeleton.'']\<rparr>)
        else
          let p = (if pathExists x (fs b) c1 then c1 else c2);
              cn = basename x p ''.vue'';
              dash = camelCaseToDash x cn;
              r = \<lparr>path = Some ''*'', componentPath = Some p, skeletonId = Some dash,
                   componentName = Some cn, componentNameInDash = Some dash\<rparr>;
              b2 = (setRoutes b sk [r])\<lparr>skeletonEnabled := Some True\<rparr>
          in addSkeletonPlugin x b spa =
               (case writeSkeletonEntry x b2 [r] of
                  (Rejected e, b3) \<Rightarrow> (Rejected e, spa, b3)
                | (Fulfilled entryPath, b3) \<Rightarrow>
                    (Fulfilled (),
                     spa\<lparr>plugins := plugins spa @
                       [SkeletonWebpackPlugin
                          \<lparr>webpackConfig =
                             (webpackServer x (config b3) True)
                               \<lparr>plugins := butlast (plugins (webpackServer x (config b3) True)),
                                entry := Map.empty(DEFAULT_ENTRY_NAME x \<mapsto> [entryPath])\<rparr>,
                           quiet = True,
                           routerMode = mode (router (config b3)),
                           routerRoutes = [r],
                           minimize = (\<not> isDev b3)\<rparr>]\<rparr>,
                     b3)))"
proof (intro conjI)
  let ?d = "defaultSkeletonRoute x"
  have d: "withDefaultRoutes x sk = [?d]"
    using assms(2) by (auto simp: withDefaultRoutes_def)
  let ?b = "setRoutes b sk [?d]"
  let ?sk = "sk\<lparr>routes := Some [?d]\<rparr>"
  have sk': "skeleton (config ?b) = Some ?sk" by (simp add: setRoutes_def)
  have d': "withDefaultRoutes x ?sk = [?d]" by (simp add: withDefaultRoutes_def)
  have v: "validateSkeletonRoutes x ?b rs al = validateSkeletonRoutes x b rs al" for rs al
    by (rule validate_cong) (simp_all add: setRoutes_def)
  have s: "setRoutes ?b ?sk rs = setRoutes b sk rs" for rs
    by (simp add: setRoutes_def)
  show "addSkeletonPlugin x b spa = addSkeletonPlugin x ?b spa"
    unfolding addSkeletonPlugin_def using assms(1) sk' d d' v s
    by (simp add: Let_def split: prod.splits option.splits promise.splits)
  let ?D = "DEFAULT_SKELETON_PATH x"
  let ?c1 = "join x [rootDir (globals (config b)), ?D]"
  let ?c2 = "resolveAliasPath x (resolveAlias spa) ?D"
  consider (empty) "?D = []"
    | (absent) "?D \<noteq> []" "\<not> pathExists x (fs b) ?c1" "\<not> pathExists x (fs b) ?c2"
    | (found) "?D \<noteq> []" "pathExists x (fs b) ?c1 \<or> pathExists x (fs b) ?c2"
    by blast
  then show "let d = DEFAULT_SKELETON_PATH x;
         c1 = join x [rootDir (globals (config b)), d];
         c2 = resolveAliasPath x (resolveAlias spa) d
     in if d = [] then
          addSkeletonPlugin x b spa =
            (Fulfilled (), spa,
             (setRoutes b sk [defaultSkeletonRoute x])
               \<lparr>console := console b @ [''[Lavas] componentPath for * is required.'']\<rparr>)
        else if \<not> pathExists x (fs b) c1 \<and> \<not> pathExists x (fs b) c2 then
          addSkeletonPlugin x b spa =
            (Fulfilled (), spa,
             (setRoutes b sk [defaultSkeletonRoute x])
               \<lparr>console := console b @
                  [''[Lavas] '' @ d @ '' is not existed during the process of generating skeleton.'']\<rparr>)
        else
          let p = (if pathExists x (fs b) c1 then c1 else c2);
              cn = basename x p ''.vue'';
              dash = camelCaseToDash x cn;
              r = \<lparr>path = Some ''*'', componentPath = Some p, skeletonId = Some dash,
                   componentName = Some cn, componentNameInDash = Some dash\<rparr>;
              b2 = (setRoutes b sk [r])\<lparr>skeletonEnabled := Some True\<rparr>
          in addSkeletonPlugin x b spa =
               (case writeSkeletonEntry x b2 [r] of
                  (Rejected e, b3) \<Rightarrow> (Rejected e, spa, b3)
                | (Fulfilled entryPath, b3) \<Rightarrow>
                    (Fulfilled (),
                     spa\<lparr>plugins := plugins spa @
                       [SkeletonWebpackPlugin
                          \<lparr>webpackConfig =
                             (webpackServer x (config b3) True)
                               \<lparr>plugins := butlast (plugins (webpackServer x (config b3) True)),
                                entry := Map.empty(DEFAULT_ENTRY_NAME x \<mapsto> [entryPath])\<rparr>,
                           quiet = True,
                           routerMode = mode (router (config b3)),
                           routerRoutes = [r],
                           minimize = (\<not> isDev b3)\<rparr>]\<rparr>,
                     b3))"
  proof cases
    case empty
    then have "validateSkeletonRoutes x b (withDefaultRoutes x sk) (resolveAlias spa) =
                 (ErrorDescriptor ''[Lavas] componentPath for * is required.'', [?d])"
      by (simp add: d validate_head defaultSkeletonRoute_def truthy_def toStr_def)
    from addSkeletonPlugin_error[OF assms(1) this] empty show ?thesis by simp
  next
    case absent
    then have "validateSkeletonRoutes x b (withDefaultRoutes x sk) (resolveAlias spa) =
                 (ErrorDescriptor (''[Lavas] '' @ ?D @ '' is not existed during the process of generating skeleton.''),
                  [?d])"
      by (simp add: d validate_head defaultSkeletonRoute_def truthy_def toStr_def Let_def)
    from addSkeletonPlugin_error[OF assms(1) this] absent show ?thesis by (simp add: Let_def)
  next
    case found
    show ?thesis
    proof (cases "pathExists x (fs b) ?c1")
      case True
      let ?r = "\<lparr>path = Some ''*'', componentPath = Some ?c1,
                 skeletonId = Some (camelCaseToDash x (basename x ?c1 ''.vue'')),
                 componentName = Some (basename x ?c1 ''.vue''),
                 componentNameInDash = Some (camelCaseToDash x (basename x ?c1 ''.vue''))\<rparr>"
      from found True have ok: "validateSkeletonRoutes x b (withDefaultRoutes x sk) (resolveAlias spa) =
                   (JsFalse, [?d\<lparr>componentPath := Some ?c1\<rparr>])"
        by (simp add: d validate_head defaultSkeletonRoute_def truthy_def toStr_def Let_def)
      have rs2: "[?r] = map (\<lambda>r. r\<lparr>componentName := Some (basename x (the (componentPath r)) ''.vue''),
                        componentNameInDash := Some (camelCaseToDash x (basename x (the (componentPath r)) ''.vue'')),
                        skeletonId := (if truthy (skeletonId r) then skeletonId r
                                       else Some (camelCaseToDash x (basename x (the (componentPath r)) ''.vue'')))\<rparr>)
                   [?d\<lparr>componentPath := Some ?c1\<rparr>]"
        by (simp add: defaultSkeletonRoute_def truthy_def)
      from addSkeletonPlugin_valid[OF assms(1) ok rs2] found True show ?thesis
        by (simp add: Let_def)
    next
      case False
      let ?r = "\<lparr>path = Some ''*'', componentPath = Some ?c2,
                 skeletonId = Some (camelCaseToDash x (basename x ?c2 ''.vue'')),
                 componentName = Some (basename x ?c2 ''.vue''),
                 componentNameInDash = Some (camelCaseToDash x (basename x ?c2 ''.vue''))\<rparr>"
      from found False have ok: "validateSkeletonRoutes x b (withDefaultRoutes x sk) (resolveAlias spa) =
                   (JsFalse, [?d\<lparr>componentPath := Some ?c2\<rparr>])"
        by (simp add: d validate_head defaultSkeletonRoute_def truthy_def toStr_def Let_def)
      have rs2: "[?r] = map (\<lambda>r. r\<lparr>componentName := Some (basename x (the (componentPath r)) ''.vue''),
                        componentNameInDash := Some (camelCaseToDash x (basename x (the (componentPath r)) ''.vue'')),
                        skeletonId := (if truthy (skeletonId r) then skeletonId r
                                       else Some (camelCaseToDash x (basename x (the (componentPath r)) ''.vue'')))\<rparr>)
                   [?d\<lparr>componentPath := Some ?c2\<rparr>]"
        by (simp add: defaultSkeletonRoute_def truthy_def)
      from addSkeletonPlugin_valid[OF assms(1) ok rs2] found False show ?thesis
        by (simp add: Let_def)
    qed
  qed
qed


theorem addSkeletonPlugin_installs_default_route_witness:
  "skeleton (config (demoBuilder False (Some \<lparr>enable = True, routes = None\<rparr>) []))
     = Some \<lparr>enable = True, routes = None\<rparr> \<and>
   routes \<lparr>enable = True, routes = None\<rparr> = None \<and>
   addSkeletonPlugin demoPlatform (demoBuilder False (Some \<lparr>enable = True, routes = None\<rparr>) [])
     (webpackClient demoPlatform (config (demoBuilder False None [])))
   = (Fulfilled (),
      webpackClient demoPlatform (config (demoBuilder False None [])),
      (demoBuilder False (Some \<lparr>enable = True, routes = Some [demoRoute ''*'' (Some ''S'')]\<rparr>) [])
      \<lparr>console := [''[Lavas] S is not existed during the process of generating skeleton.'']\<rparr>) \<and>
   skeleton (config (demoBuilder False (Some \<lparr>enable = True, routes = Some []\<rparr>)
                        [(''r/S'', ''s''), (''d/../templates/entry-skeleton.tmpl'', ''E'')]))
     = Some \<lparr>enable = True, routes = Some []\<rparr> \<and>
   routes \<lparr>enable = True, routes = Some []\<rparr> = Some [] \<and>
   addSkeletonPlugin demoPlatform
     (demoBuilder False (Some \<lparr>enable = True, routes = Some []\<rparr>)
        [(''r/S'', ''s''), (''d/../templates/entry-skeleton.tmpl'', ''E'')])
     (webpackClient demoPlatform (config (demoBuilder False None [])))
   = (Fulfilled (),
      \<lparr>entry = Map.empty(''old'' \<mapsto> [''o.js'']), name = ''client'', contextDir = [],
       plugins =
         [OtherPlugin ''define'',
          SkeletonWebpackPlugin
            \<lparr>webpackConfig =
               \<lparr>entry = Map.empty(''main'' \<mapsto> [''r/./.lavas/skeleton.js'']), name = ''server'',
                contextDir = [], plugins = [''css''], resolveAlias = []\<rparr>,
             quiet = True, routerMode = ''history'',
             routerRoutes =
               [\<lparr>path = Some ''*'', componentPath = Some ''r/S'', skeletonId = Some ''dBr/S'',
                 componentName = Some ''Br/S'', componentNameInDash = Some ''dBr/S''\<rparr>],
             minimize = True\<rparr>],
       resolveAlias = [(''@a'', ''x'')]\<rparr>,
      (demoBuilder False
         (Some \<lparr>enable = True,
                 routes = Some
                   [\<lparr>path = Some ''*'', componentPath = Some ''r/S'', skeletonId = Some ''dBr/S'',
                     componentName = Some ''Br/S'', componentNameInDash = Some ''dBr/S''\<rparr>]\<rparr>)
         [(''r/./.lavas/skeleton.js'', ''E''), (''r/S'', ''s''),
          (''d/../templates/entry-skeleton.tmpl'', ''E'')])
      \<lparr>skeletonEnabled := Some True\<rparr>)"
proof -
  let ?spa = "webpackClient demoPlatform (config (demoBuilder False None []))"
  let ?sk1 = "\<lparr>enable = True, routes = None\<rparr>"
  let ?b1 = "demoBuilder False (Some ?sk1) []"
  have sk1: "skeleton (config ?b1) = Some ?sk1" by (simp add: demo_defs)
  have n1: "routes ?sk1 = None \<or> routes ?sk1 = Some []" by simp
  from addSkeletonPlugin_installs_default_route[OF sk1 n1, of demoPlatform ?spa, THEN conjunct2]
  have r1: "addSkeletonPlugin demoPlatform ?b1 ?spa =
     (Fulfilled (), ?spa,
      (demoBuilder False (Some \<lparr>enable = True, routes = Some [demoRoute ''*'' (Some ''S'')]\<rparr>) [])
      \<lparr>console := [''[Lavas] S is not existed during the process of generating skeleton.'']\<rparr>)"
    by (simp add: Let_def demo_defs setRoutes_def defaultSkeletonRoute_def)
  let ?sk2 = "\<lparr>enable = True, routes = Some []\<rparr>"
  let ?b2 = "demoBuilder False (Some ?sk2) [(''r/S'', ''s''), (''d/../templates/entry-skeleton.tmpl'', ''E'')]"
  have sk2: "skeleton (config ?b2) = Some ?sk2" by (simp add: demo_defs)
  have n2: "routes ?sk2 = None \<or> routes ?sk2 = Some []" by simp
  from addSkeletonPlugin_installs_default_route[OF sk2 n2, of demoPlatform ?spa, THEN conjunct2]
  have r2: "addSkeletonPlugin demoPlatform ?b2 ?spa
   = (Fulfilled (),
      \<lparr>entry = Map.empty(''old'' \<mapsto> [''o.js'']), name = ''client'', contextDir = [],
       plugins =
         [OtherPlugin ''define'',
          SkeletonWebpackPlugin
            \<lparr>webpackConfig =
               \<lparr>entry = Map.empty(''main'' \<mapsto> [''r/./.lavas/skeleton.js'']), name = ''server'',
                contextDir = [], plugins = [''css''], resolveAlias = []\<rparr>,
             quiet = True, routerMode = ''history'',
             routerRoutes =
               [\<lparr>path = Some ''*'', componentPath = Some ''r/S'', skeletonId = Some ''dBr/S'',
                 componentName = Some ''Br/S'', componentNameInDash = Some ''dBr/S''\<rparr>],
             minimize = True\<rparr>],
       resolveAlias = [(''@a'', ''x'')]\<rparr>,
      (demoBuilder False
         (Some \<lparr>enable = True,
                 routes = Some
                   [\<lparr>path = Some ''*'', componentPath = Some ''r/S'', skeletonId = Some ''dBr/S'',
                     componentName = Some ''Br/S'', componentNameInDash = Some ''dBr/S''\<rparr>]\<rparr>)
         [(''r/./.lavas/skeleton.js'', ''E''), (''r/S'', ''s''),
          (''d/../templates/entry-skeleton.tmpl'', ''E'')])
      \<lparr>skeletonEnabled := Some True\<rparr>)"
    by (simp add: Let_def demo_defs setRoutes_def writeSkeletonEntry_def writeFileToLavasDir_def
                  lavasPath_def templatesPath_def)
  from sk1 r1 sk2 r2 show ?thesis by simp
qed

text \<open>
  Claim C10. After a successful validation, \<^verbatim>\<open>addSkeletonPlugin\<close> leaves every route of
  the config with \<^verbatim>\<open>componentName\<close> the basename of its resolved
  \<^verbatim>\<open>componentPath\<close> without \<^verbatim>\<open>.vue\<close>, \<^verbatim>\<open>componentNameInDash\<close> the dashed form of
  that name, and \<^verbatim>\<open>skeletonId\<close> the one the route came with when that was truthy, the
  dashed name otherwise.
\<close>

theorem addSkeletonPlugin_annotates_routes:
  assumes "skeleton (config b) = Some sk"
    and "validateSkeletonRoutes x b (withDefaultRoutes x sk) (resolveAlias spa) = (JsFalse, rs1)"
  shows "\<exists>sk' rs2.
           skeleton (config (snd (snd (addSkeletonPlugin x b spa)))) = Some sk' \<and>
           routes sk' = Some rs2 \<and>
           length rs2 = length (withDefaultRoutes x sk) \<and>
           (\<forall>k < length rs2. \<exists>cp.
              componentPath (rs1 ! k) = Some cp \<and>
              componentPath (rs2 ! k) = Some cp \<and>
              componentName (rs2 ! k) = Some (basename x cp ''.vue'') \<and>
              componentNameInDash (rs2 ! k) = Some (camelCaseToDash x (basename x cp ''.vue'')) \<and>
              skeletonId (rs2 ! k) =
                (if truthy (skeletonId (withDefaultRoutes x sk ! k))
                 then skeletonId (withDefaultRoutes x sk ! k)
                 else Some (camelCaseToDash x (basename x cp ''.vue''))))"
proof -
  define rs2 where "rs2 = map (\<lambda>r. r\<lparr>componentName := Some (basename x (the (componentPath r)) ''.vue''),
                        componentNameInDash := Some (camelCaseToDash x (basename x (the (componentPath r)) ''.vue'')),
                        skeletonId := (if truthy (skeletonId r) then skeletonId r
                                       else Some (camelCaseToDash x (basename x (the (componentPath r)) ''.vue'')))\<rparr>) rs1"
  let ?b2 = "(setRoutes b sk rs2)\<lparr>skeletonEnabled := Some True\<rparr>"
  obtain res b3 where w: "writeSkeletonEntry x ?b2 rs2 = (res, b3)"
    by (cases "writeSkeletonEntry x ?b2 rs2")
  from writeSkeletonEntry_state[OF w]
  have c3: "config b3 = (config b)\<lparr>skeleton := Some (sk\<lparr>routes := Some rs2\<rparr>)\<rparr>"
    by (auto simp: setRoutes_def)
  have "config (snd (snd (addSkeletonPlugin x b spa))) = config b3"
    unfolding addSkeletonPlugin_valid[OF assms rs2_def] using w
    by (cases res) simp_all
  with c3 have sk': "skeleton (config (snd (snd (addSkeletonPlugin x b spa)))) = Some (sk\<lparr>routes := Some rs2\<rparr>)"
    by simp
  have len1: "length rs1 = length (withDefaultRoutes x sk)"
    using validate_length[of x b "withDefaultRoutes x sk" "resolveAlias spa"] assms(2) by simp
  have len2: "length rs2 = length rs1" by (simp add: rs2_def)
  have ids: "map skeletonId rs1 = map skeletonId (withDefaultRoutes x sk)"
    using validate_fields[OF assms(2)] by simp
  have each: "\<exists>cp.
              componentPath (rs1 ! k) = Some cp \<and>
              componentPath (rs2 ! k) = Some cp \<and>
              componentName (rs2 ! k) = Some (basename x cp ''.vue'') \<and>
              componentNameInDash (rs2 ! k) = Some (camelCaseToDash x (basename x cp ''.vue'')) \<and>
              skeletonId (rs2 ! k) =
                (if truthy (skeletonId (withDefaultRoutes x sk ! k))
                 then skeletonId (withDefaultRoutes x sk ! k)
                 else Some (camelCaseToDash x (basename x cp ''.vue'')))" if k: "k < length rs2" for k
  proof -
    from k len2 have k1: "k < length rs1" by simp
    then have "rs1 ! k \<in> set rs1" by simp
    from validate_ok_set[OF assms(2) this] obtain cp where cp: "componentPath (rs1 ! k) = Some cp"
      by blast
    have "skeletonId (rs1 ! k) = skeletonId (withDefaultRoutes x sk ! k)"
      using ids k1 len1 by (metis nth_map)
    with cp k1 show ?thesis by (simp add: rs2_def)
  qed
  from sk' len1 len2 each show ?thesis by simp
qed


theorem addSkeletonPlugin_annotates_routes_witness:
  "validateSkeletonRoutes demoPlatform
     (demoBuilder False
        (Some \<lparr>enable = True,
                routes = Some [demoRoute ''/p'' (Some ''a''),
                               (demoRoute ''/q'' (Some ''@a''))\<lparr>skeletonId := Some ''mine''\<rparr>]\<rparr>)
        [(''r/a'', ''A''), (''x'', ''X''), (''d/../templates/entry-skeleton.tmpl'', ''E'')])
     [demoRoute ''/p'' (Some ''a''), (demoRoute ''/q'' (Some ''@a''))\<lparr>skeletonId := Some ''mine''\<rparr>]
     [(''@a'', ''x'')]
   = (JsFalse,
      [demoRoute ''/p'' (Some ''r/a''), (demoRoute ''/q'' (Some ''x''))\<lparr>skeletonId := Some ''mine''\<rparr>]) \<and>
   skeleton (config (snd (snd (addSkeletonPlugin demoPlatform
     (demoBuilder False
        (Some \<lparr>enable = True,
                routes = Some [demoRoute ''/p'' (Some ''a''),
                               (demoRoute ''/q'' (Some ''@a''))\<lparr>skeletonId := Some ''mine''\<rparr>]\<rparr>)
        [(''r/a'', ''A''), (''x'', ''X''), (''d/../templates/entry-skeleton.tmpl'', ''E'')])
     (webpackClient demoPlatform (config (demoBuilder False None []))))))) =
   Some \<lparr>enable = True,
         routes = Some
           [\<lparr>path = Some ''/p'', componentPath = Some ''r/a'', skeletonId = Some ''dBr/a'',
             componentName = Some ''Br/a'', componentNameInDash = Some ''dBr/a''\<rparr>,
            \<lparr>path = Some ''/q'', componentPath = Some ''x'', skeletonId = Some ''mine'',
             componentName = Some ''Bx'', componentNameInDash = Some ''dBx''\<rparr>]\<rparr>"
proof -
  let ?rs = "[demoRoute ''/p'' (Some ''a''), (demoRoute ''/q'' (Some ''@a''))\<lparr>skeletonId := Some ''mine''\<rparr>]"
  let ?sk = "\<lparr>enable = True, routes = Some ?rs\<rparr>"
  let ?b = "demoBuilder False (Some ?sk)
              [(''r/a'', ''A''), (''x'', ''X''), (''d/../templates/entry-skeleton.tmpl'', ''E'')]"
  let ?spa = "webpackClient demoPlatform (config (demoBuilder False None []))"
  let ?rs1 = "[demoRoute ''/p'' (Some ''r/a''), (demoRoute ''/q'' (Some ''x''))\<lparr>skeletonId := Some ''mine''\<rparr>]"
  let ?b' = "snd (snd (addSkeletonPlugin demoPlatform ?b ?spa))"
  have sk: "skeleton (config ?b) = Some ?sk" by (simp add: demo_defs)
  have v0: "validateSkeletonRoutes demoPlatform ?b ?rs [(''@a'', ''x'')] = (JsFalse, ?rs1)"
    by (simp add: run_defs demo_defs)
  have v: "validateSkeletonRoutes demoPlatform ?b (withDefaultRoutes demoPlatform ?sk) (resolveAlias ?spa)
             = (JsFalse, ?rs1)"
    using v0 by (simp add: withDefaultRoutes_def demo_defs)
  from addSkeletonPlugin_annotates_routes[OF sk v] obtain sk' rs2 where
    s: "skeleton (config ?b') = Some sk'" and r: "routes sk' = Some rs2"
    and l: "length rs2 = length (withDefaultRoutes demoPlatform ?sk)"
    and a: "\<forall>k < length rs2. \<exists>cp.
              componentPath (?rs1 ! k) = Some cp \<and>
              componentPath (rs2 ! k) = Some cp \<and>
              componentName (rs2 ! k) = Some (basename demoPlatform cp ''.vue'') \<and>
              componentNameInDash (rs2 ! k) = Some (camelCaseToDash demoPlatform (basename demoPlatform cp ''.vue'')) \<and>
              skeletonId (rs2 ! k) =
                (if truthy (skeletonId (withDefaultRoutes demoPlatform ?sk ! k))
                 then skeletonId (withDefaultRoutes demoPlatform ?sk ! k)
                 else Some (camelCaseToDash demoPlatform (basename demoPlatform cp ''.vue'')))"
    by blast
  have run: "skeleton (config ?b') =
   Some \<lparr>enable = True,
         routes = Some
           [\<lparr>path = Some ''/p'', componentPath = Some ''r/a'', skeletonId = Some ''dBr/a'',
             componentName = Some ''Br/a'', componentNameInDash = Some ''dBr/a''\<rparr>,
            \<lparr>path = Some ''/q'', componentPath = Some ''x'', skeletonId = Some ''mine'',
             componentName = Some ''Bx'', componentNameInDash = Some ''dBx''\<rparr>]\<rparr>"
    by (simp add: run_defs demo_defs)
  from s r l a run v0 show ?thesis by simp
qed





end
